theory Spec2Isabelle
  imports Complex_Main
begin

section \<open>JavaScript values and the host\<close>

text \<open>
  The reconciliation engine of \<^verbatim>\<open>backend/src/index.js\<close> works on rows parsed from CSV
  text. A Number is a finite double, an infinity or NaN; the finite ones are written as the
  rational they denote, with the two zeros identified (the engine never observes the sign
  of a zero). A cell of a row is a string, a number (the \<^verbatim>\<open>__rowId\<close>) or absent.
\<close>

datatype jsnum = NaN | PInf | NInf | Fin rat

datatype jsval = JUndefined | JNull | JBool bool | JNum jsnum | JStr string

text \<open>
  The built-ins of the language that read and print numbers and dates are not code of the
  engine. They are the fields of a host, and every function of the engine takes the host as
  its first argument:
  \<^item> \<open>Number_of s\<close> is \<^verbatim>\<open>Number(s)\<close> for a string;
  \<^item> \<open>String_of n\<close> is \<^verbatim>\<open>String(n)\<close> for a number;
  \<^item> \<open>round_num q\<close> is the Number that an arithmetic operation returns when its
    exact result is \<open>q\<close>;
  \<^item> \<open>Date_parse s\<close> is the time value of \<^verbatim>\<open>new Date(s)\<close> in milliseconds, \<open>None\<close>
    for an invalid date;
  \<^item> \<open>toISOString t\<close> is \<^verbatim>\<open>toISOString()\<close> of the date with time value \<open>t\<close>.
\<close>

record jshost =
  Number_of :: "string \<Rightarrow> jsnum"
  String_of :: "jsnum \<Rightarrow> string"
  round_num :: "rat \<Rightarrow> jsnum"
  Date_parse :: "string \<Rightarrow> int option"
  toISOString :: "int \<Rightarrow> string"

fun isFinite :: "jsnum \<Rightarrow> bool" where
  "isFinite (Fin q) = True"
| "isFinite n = False"

fun js_sub :: "jshost \<Rightarrow> jsnum \<Rightarrow> jsnum \<Rightarrow> jsnum" where
  "js_sub rt NaN y = NaN"
| "js_sub rt x NaN = NaN"
| "js_sub rt PInf PInf = NaN"
| "js_sub rt NInf NInf = NaN"
| "js_sub rt PInf y = PInf"
| "js_sub rt NInf y = NInf"
| "js_sub rt (Fin p) PInf = NInf"
| "js_sub rt (Fin p) NInf = PInf"
| "js_sub rt (Fin p) (Fin q) = round_num rt (p - q)"

fun js_abs :: "jsnum \<Rightarrow> jsnum" where
  "js_abs NaN = NaN"
| "js_abs PInf = PInf"
| "js_abs NInf = PInf"
| "js_abs (Fin q) = Fin \<bar>q\<bar>"

text \<open>Division of a Number by a positive finite constant (the engine divides by one day only).\<close>

fun js_div_by :: "jshost \<Rightarrow> jsnum \<Rightarrow> rat \<Rightarrow> jsnum" where
  "js_div_by rt NaN d = NaN"
| "js_div_by rt PInf d = PInf"
| "js_div_by rt NInf d = NInf"
| "js_div_by rt (Fin q) d = round_num rt (q / d)"

text \<open>\<^verbatim>\<open>x <= y\<close> on Numbers: false as soon as one side is NaN.\<close>

fun js_le :: "jsnum \<Rightarrow> jsnum \<Rightarrow> bool" where
  "js_le NaN y = False"
| "js_le x NaN = False"
| "js_le NInf y = True"
| "js_le x PInf = True"
| "js_le PInf y = False"
| "js_le x NInf = False"
| "js_le (Fin p) (Fin q) = (p \<le> q)"

text \<open>\<^verbatim>\<open>x !== y\<close> on the values above: NaN differs from itself.\<close>

definition strict_neq :: "jsval \<Rightarrow> jsval \<Rightarrow> bool" where
  "strict_neq x y = (x \<noteq> y \<or> x = JNum NaN)"

text \<open>\<^verbatim>\<open>String(v)\<close>, also what a template literal prints.\<close>

fun js_String :: "jshost \<Rightarrow> jsval \<Rightarrow> string" where
  "js_String rt JUndefined = ''undefined''"
| "js_String rt JNull = ''null''"
| "js_String rt (JBool t) = (if t then ''true'' else ''false'')"
| "js_String rt (JNum n) = String_of rt n"
| "js_String rt (JStr s) = s"

text \<open>\<^verbatim>\<open>Number(v)\<close>.\<close>

fun js_Number :: "jshost \<Rightarrow> jsval \<Rightarrow> jsnum" where
  "js_Number rt JUndefined = NaN"
| "js_Number rt JNull = Fin 0"
| "js_Number rt (JBool t) = (if t then Fin 1 else Fin 0)"
| "js_Number rt (JNum n) = n"
| "js_Number rt (JStr s) = Number_of rt s"

text \<open>\<^verbatim>\<open>v ?? d\<close>.\<close>

definition nullish_or :: "jsval \<Rightarrow> jsval \<Rightarrow> jsval" where
  "nullish_or v d = (if v = JUndefined \<or> v = JNull then d else v)"

subsection \<open>Strings\<close>

text \<open>
  A string is the list of its code units, taken below 256 (Latin-1). \<^verbatim>\<open>trim\<close> removes
  the white space and line terminators of that range from both ends; \<^verbatim>\<open>toLowerCase\<close>
  maps A-Z and the upper-case letters of Latin-1 to their lower-case forms.
\<close>

definition is_space :: "char \<Rightarrow> bool" where
  "is_space c = (of_char c \<in> {9, 10, 11, 12, 13, 32, 160 :: nat})"

definition trim :: "string \<Rightarrow> string" where
  "trim s = rev (dropWhile is_space (rev (dropWhile is_space s)))"

definition lower_char :: "char \<Rightarrow> char" where
  "lower_char c =
     (let n = of_char c :: nat
      in if (65 \<le> n \<and> n \<le> 90) \<or> (192 \<le> n \<and> n \<le> 222 \<and> n \<noteq> 215)
         then char_of (n + 32) else c)"

definition toLowerCase :: "string \<Rightarrow> string" where
  "toLowerCase s = map lower_char s"

text \<open>\<^verbatim>\<open>parts.join(sep)\<close>.\<close>

fun join :: "string \<Rightarrow> string list \<Rightarrow> string" where
  "join sep [] = ''''"
| "join sep [x] = x"
| "join sep (x # y # ys) = x @ sep @ join sep (y # ys)"

section \<open>Helpers\<close>

text \<open>
  \<^verbatim>\<open>
  function toNumber(v) {
    if (v === null || v === undefined) return null;
    const s = String(v).trim();
    if (s === "") return null;
    const cleaned = s.replace(/,/g, "");
    const n = Number(cleaned);
    return Number.isFinite(n) ? n : null;
  }
  \<close>
\<close>

definition toNumber :: "jshost \<Rightarrow> jsval \<Rightarrow> jsnum option" where
  "toNumber rt v =
     (if v = JNull \<or> v = JUndefined then None
      else let s = trim (js_String rt v)
           in if s = '''' then None
              else let cleaned = filter (\<lambda>c. c \<noteq> CHR '','') s;
                       n = Number_of rt cleaned
                   in if isFinite n then Some n else None)"

text \<open>
  \<^verbatim>\<open>
  function normalizeDate(v) {
    if (v === null || v === undefined) return null;
    const s = String(v).trim();
    if (!s) return null;
    const d = new Date(s);
    if (!Number.isNaN(d.getTime())) return d.toISOString().slice(0, 10);
    return null;
  }
  \<close>
\<close>

definition normalizeDate :: "jshost \<Rightarrow> jsval \<Rightarrow> string option" where
  "normalizeDate rt v =
     (if v = JNull \<or> v = JUndefined then None
      else let s = trim (js_String rt v)
           in if s = '''' then None
              else case Date_parse rt s of
                     Some t \<Rightarrow> Some (take 10 (toISOString rt t))
                   | None \<Rightarrow> None)"

definition stringify :: "jshost \<Rightarrow> jsval \<Rightarrow> string" where
  "stringify rt v = (if v = JNull \<or> v = JUndefined then '''' else trim (js_String rt v))"

subsection \<open>Rows, mapping and rules\<close>

text \<open>
  A row is an object: its properties in insertion order, each with its value.
  \<open>cell r f\<close> is \<^verbatim>\<open>r[f]\<close>, undefined where the row has no such property. The
  identifier that the parser assigns is the property \<^verbatim>\<open>__rowId\<close>.
\<close>

type_synonym row = "(string \<times> jsval) list"

definition cell :: "row \<Rightarrow> string \<Rightarrow> jsval" where
  "cell r f = (case map_of r f of None \<Rightarrow> JUndefined | Some v \<Rightarrow> v)"

text \<open>\<^verbatim>\<open>r[k]\<close> for a column name that may be null: the property called "null".\<close>

definition cell_at :: "row \<Rightarrow> string option \<Rightarrow> jsval" where
  "cell_at r k = cell r (case k of None \<Rightarrow> ''null'' | Some f \<Rightarrow> f)"

definition rowId :: "row \<Rightarrow> jsval" where
  "rowId r = cell r ''__rowId''"

text \<open>
  The mapping gives, for a logical field, the column names of the two sides, each possibly
  absent. Column names are strings; an absent or empty name is falsy.
  \<^verbatim>\<open>
  function pickField(mapping, key, fallback) {
    const m = mapping?.[key];
    if (m && typeof m === "object")
      return { a: m.a || fallback?.a || null, b: m.b || fallback?.b || null };
    return { a: fallback?.a || null, b: fallback?.b || null };
  }
  \<close>
\<close>

type_synonym field_pair = "string option \<times> string option"

type_synonym mapping = "string \<rightharpoonup> field_pair"

definition truthy :: "string option \<Rightarrow> bool" where
  "truthy x = (x \<noteq> None \<and> x \<noteq> Some '''')"

definition js_or :: "string option \<Rightarrow> string option \<Rightarrow> string option" where
  "js_or x y = (if truthy x then x else y)"

definition pickField :: "mapping \<Rightarrow> string \<Rightarrow> field_pair \<Rightarrow> field_pair" where
  "pickField mapping k fallback =
     (case mapping k of
        Some m \<Rightarrow> (js_or (js_or (fst m) (fst fallback)) None,
                   js_or (js_or (snd m) (snd fallback)) None)
      | None \<Rightarrow> (js_or (fst fallback) None, js_or (snd fallback) None))"

text \<open>
  The rules object. A field that the request leaves out is \<open>JUndefined\<close> or \<open>None\<close>;
  a request without rules is the record with every field left out.
\<close>

record rules =
  amountTolerance :: jsval
  dateToleranceDays :: jsval
  compositeKeysA :: "string list option"
  compositeKeysB :: "string list option"
  fieldTypes :: "string \<rightharpoonup> string"

datatype mode = Auto | Custom

subsection \<open>The key builder\<close>

text \<open>
  \<^verbatim>\<open>
  function buildKey(record, fields, rules) {
    const parts = [];
    for (const f of fields) {
      const v = record[f];
      if (rules?.fieldTypes?.[f] === "number") parts.push(String(toNumber(v) ?? ""));
      else if (rules?.fieldTypes?.[f] === "date") parts.push(String(normalizeDate(v) ?? ""));
      else parts.push(stringify(v).toLowerCase());
    }
    return parts.join("||");
  }
  \<close>
\<close>

definition key_part :: "jshost \<Rightarrow> rules \<Rightarrow> row \<Rightarrow> string \<Rightarrow> string" where
  "key_part rt rules r f =
     (let v = cell r f
      in if fieldTypes rules f = Some ''number''
         then (case toNumber rt v of Some n \<Rightarrow> String_of rt n | None \<Rightarrow> '''')
         else if fieldTypes rules f = Some ''date''
         then (case normalizeDate rt v of Some d \<Rightarrow> d | None \<Rightarrow> '''')
         else toLowerCase (stringify rt v))"

definition buildKey :: "jshost \<Rightarrow> row \<Rightarrow> string list \<Rightarrow> rules \<Rightarrow> string" where
  "buildKey rt r cols rules = join ''||'' (map (key_part rt rules r) cols)"

section \<open>The reconciliation engine\<close>

subsection \<open>Resolved columns and tolerances\<close>

text \<open>
  \<^verbatim>\<open>
  const amountTol = Number(rules?.amountTolerance ?? 0);
  const dateTolDays = Number(rules?.dateToleranceDays ?? 0);
  const fallback = { id: { a: "transaction_id", b: "transaction_id" }, amount: ..., date: ... };
  const idField = pickField(mapping, "id", fallback.id);
  \<close>
\<close>

definition amountTol :: "jshost \<Rightarrow> rules \<Rightarrow> jsnum" where
  "amountTol rt rules = js_Number rt (nullish_or (amountTolerance rules) (JNum (Fin 0)))"

definition dateTolDays :: "jshost \<Rightarrow> rules \<Rightarrow> jsnum" where
  "dateTolDays rt rules = js_Number rt (nullish_or (dateToleranceDays rules) (JNum (Fin 0)))"

definition idField :: "mapping \<Rightarrow> field_pair" where
  "idField mapping = pickField mapping ''id'' (Some ''transaction_id'', Some ''transaction_id'')"

definition amountField :: "mapping \<Rightarrow> field_pair" where
  "amountField mapping = pickField mapping ''amount'' (Some ''amount'', Some ''amount'')"

definition dateField :: "mapping \<Rightarrow> field_pair" where
  "dateField mapping = pickField mapping ''date'' (Some ''date'', Some ''date'')"

subsection \<open>The comparators\<close>

text \<open>
  A comparator returns its verdict and, when an operand is missing, a reason code; the other
  fields of the object it returns (\<^verbatim>\<open>diff\<close>, \<^verbatim>\<open>an\<close>, \<^verbatim>\<open>bn\<close>, ...) are never read.
  \<^verbatim>\<open>
  const compareAmounts = (a, b) => {
    const an = toNumber(a), bn = toNumber(b);
    if (an === null || bn === null) return { ok: false, reason: "AMOUNT_MISSING" };
    const diff = Math.abs(an - bn);
    return { ok: diff <= amountTol, diff, an, bn };
  };
  \<close>
\<close>

record cmp =
  ok :: bool
  cmp_reason :: "string option"

definition compareAmounts :: "jshost \<Rightarrow> jsnum \<Rightarrow> jsval \<Rightarrow> jsval \<Rightarrow> cmp" where
  "compareAmounts rt tol x y =
     (case toNumber rt x of
        None \<Rightarrow> \<lparr>ok = False, cmp_reason = Some ''AMOUNT_MISSING''\<rparr>
      | Some an \<Rightarrow>
         (case toNumber rt y of
            None \<Rightarrow> \<lparr>ok = False, cmp_reason = Some ''AMOUNT_MISSING''\<rparr>
          | Some bn \<Rightarrow>
             (let diff = js_abs (js_sub rt an bn)
              in \<lparr>ok = js_le diff tol, cmp_reason = None\<rparr>)))"

text \<open>
  \<^verbatim>\<open>
  const compareDates = (a, b) => {
    const ad = normalizeDate(a), bd = normalizeDate(b);
    if (!ad || !bd) return { ok: false, reason: "DATE_MISSING" };
    const adt = new Date(ad + "T00:00:00Z").getTime();
    const bdt = new Date(bd + "T00:00:00Z").getTime();
    const day = 24 * 60 * 60 * 1000;
    const dd = Math.abs(adt - bdt) / day;
    return { ok: dd <= dateTolDays, diffDays: dd, ad, bd };
  };
  \<close>
\<close>

definition getTime :: "jshost \<Rightarrow> string \<Rightarrow> jsnum" where
  "getTime rt s = (case Date_parse rt s of Some t \<Rightarrow> Fin (of_int t) | None \<Rightarrow> NaN)"

definition day :: rat where
  "day = 24 * 60 * 60 * 1000"

definition compareDates :: "jshost \<Rightarrow> jsnum \<Rightarrow> jsval \<Rightarrow> jsval \<Rightarrow> cmp" where
  "compareDates rt tol x y =
     (case normalizeDate rt x of
        None \<Rightarrow> \<lparr>ok = False, cmp_reason = Some ''DATE_MISSING''\<rparr>
      | Some ad \<Rightarrow>
         (case normalizeDate rt y of
            None \<Rightarrow> \<lparr>ok = False, cmp_reason = Some ''DATE_MISSING''\<rparr>
          | Some bd \<Rightarrow>
             (if ad = '''' \<or> bd = ''''
              then \<lparr>ok = False, cmp_reason = Some ''DATE_MISSING''\<rparr>
              else (let adt = getTime rt (ad @ ''T00:00:00Z'');
                        bdt = getTime rt (bd @ ''T00:00:00Z'');
                        dd = js_div_by rt (js_abs (js_sub rt adt bdt)) day
                    in \<lparr>ok = js_le dd tol, cmp_reason = None\<rparr>))))"

subsection \<open>The index over B\<close>

text \<open>
  \<^verbatim>\<open>
  let bIndex = new Map();
  if (mode === "auto") {
    const bId = idField.b;
    for (const r of bRows) {
      const id = bId ? stringify(r[bId]) : "";
      if (!id) continue;
      if (!bIndex.has(id)) bIndex.set(id, r);
    }
  } else {
    const keysB = rules?.compositeKeysB || [];
    for (const r of bRows) {
      const key = buildKey(r, keysB, rules);
      if (!bIndex.has(key)) bIndex.set(key, r);
    }
  }
  \<close>
  \<open>bKey\<close> is the key that the loop of the mode computes for a row of B.
\<close>

definition keys_or_empty :: "string list option \<Rightarrow> string list" where
  "keys_or_empty ks = (case ks of Some l \<Rightarrow> l | None \<Rightarrow> [])"

definition bKey :: "jshost \<Rightarrow> mapping \<Rightarrow> mode \<Rightarrow> rules \<Rightarrow> row \<Rightarrow> string" where
  "bKey rt mapping mode rules r =
     (case mode of
        Auto \<Rightarrow> (let bId = snd (idField mapping)
                 in if truthy bId then stringify rt (cell_at r bId) else '''')
      | Custom \<Rightarrow> buildKey rt r (keys_or_empty (compositeKeysB rules)) rules)"

definition build_bIndex ::
  "jshost \<Rightarrow> mapping \<Rightarrow> mode \<Rightarrow> rules \<Rightarrow> row list \<Rightarrow> (string \<rightharpoonup> row)" where
  "build_bIndex rt mapping mode rules bRows =
     (case mode of
        Auto \<Rightarrow>
          foldl (\<lambda>bIndex r.
                   let id = bKey rt mapping Auto rules r
                   in if id = '''' then bIndex
                      else if bIndex id = None then bIndex(id \<mapsto> r) else bIndex)
                Map.empty bRows
      | Custom \<Rightarrow>
          foldl (\<lambda>bIndex r.
                   let k = bKey rt mapping Custom rules r
                   in if bIndex k = None then bIndex(k \<mapsto> r) else bIndex)
                Map.empty bRows)"

subsection \<open>Probing from A\<close>

datatype counter = MATCHED | MISMATCH | MISSING_IN_B | MISSING_IN_A

record result =
  status :: string
  key :: "string option"
  reason :: string
  a_ref :: "row option"
  b_ref :: "row option"

text \<open>
  \<^verbatim>\<open>
  const aKeyField = (mode === "auto") ? idField.a : null;
  const keysA = (mode === "custom") ? (rules?.compositeKeysA || []) : null;
  ...
  const key = (mode === "auto") ? stringify(a[aKeyField] ?? "") : buildKey(a, keysA, rules);
  \<close>
\<close>

definition aKey :: "jshost \<Rightarrow> mapping \<Rightarrow> mode \<Rightarrow> rules \<Rightarrow> row \<Rightarrow> string" where
  "aKey rt mapping mode rules a =
     (case mode of
        Auto \<Rightarrow> stringify rt (nullish_or (cell_at a (fst (idField mapping))) (JStr ''''))
      | Custom \<Rightarrow> buildKey rt a (keys_or_empty (compositeKeysA rules)) rules)"

text \<open>
  The reason of a mismatch record, as the \<^verbatim>\<open>else\<close> branch builds it:
  \<^verbatim>\<open>
  const reasons = [];
  if (a.amount !== b.amount) reasons.push(`Amount differs (${a.amount} vs ${b.amount})`);
  if (a.date !== b.date) reasons.push(`Date differs (${a.date} vs ${b.date})`);
  ... reason: reasons.join(" | ")
  \<close>
\<close>

definition mismatch_reasons :: "jshost \<Rightarrow> row \<Rightarrow> row \<Rightarrow> string list" where
  "mismatch_reasons rt a b =
     (if strict_neq (cell a ''amount'') (cell b ''amount'')
      then [''Amount differs ('' @ js_String rt (cell a ''amount'') @ '' vs ''
              @ js_String rt (cell b ''amount'') @ '')'']
      else [])
     @ (if strict_neq (cell a ''date'') (cell b ''date'')
        then [''Date differs ('' @ js_String rt (cell a ''date'') @ '' vs ''
                @ js_String rt (cell b ''date'') @ '')'']
        else [])"

text \<open>
  The body of the loop over A decides which counter of \<^verbatim>\<open>statusCounts\<close> it increments
  and which record it pushes; \<open>classify_a\<close> returns both. The counter is how the engine
  classifies the row.
  \<^verbatim>\<open>
  const b = key ? bIndex.get(key) : null;
  if (!key || !b) {
    statusCounts.MISSING_IN_B++;
    results.push({ status: "MISSING_IN_B", key, reason: "MISSING_IN_B", a, b: null });
    continue;
  }
  bUsed.add(b.__rowId);
  const amountCmp = compareAmounts(a[amountField.a], b[amountField.b]);
  const dateCmp = compareDates(a[dateField.a], b[dateField.b]);
  const mismatches = [];
  if (!amountCmp.ok) mismatches.push(amountCmp.reason || "AMOUNT_MISMATCH");
  if (!dateCmp.ok) mismatches.push(dateCmp.reason || "DATE_MISMATCH");
  if (mismatches.length === 0) {
    statusCounts.MATCHED++;
    results.push({ status: "MATCHED", key, reason: "MATCHED", a, b });
  } else {
    statusCounts.MISMATCH++;
    ...
    results.push({ status: "mismatch", key, a, b, reason: reasons.join(" | ") });
  }
  \<close>
\<close>

definition reason_or :: "string option \<Rightarrow> string \<Rightarrow> string" where
  "reason_or r d = (case r of None \<Rightarrow> d | Some s \<Rightarrow> if s = '''' then d else s)"

definition mismatches :: "cmp \<Rightarrow> cmp \<Rightarrow> string list" where
  "mismatches amountCmp dateCmp =
     (if \<not> ok amountCmp then [reason_or (cmp_reason amountCmp) ''AMOUNT_MISMATCH''] else [])
     @ (if \<not> ok dateCmp then [reason_or (cmp_reason dateCmp) ''DATE_MISMATCH''] else [])"

definition classify_a ::
  "jshost \<Rightarrow> mapping \<Rightarrow> mode \<Rightarrow> rules \<Rightarrow> (string \<rightharpoonup> row) \<Rightarrow> row \<Rightarrow> counter \<times> result" where
  "classify_a rt mapping mode rules bIndex a =
     (let k = aKey rt mapping mode rules a
      in case (if k \<noteq> '''' then bIndex k else None) of
           None \<Rightarrow>
             (MISSING_IN_B,
              \<lparr>status = ''MISSING_IN_B'', key = Some k, reason = ''MISSING_IN_B'',
               a_ref = Some a, b_ref = None\<rparr>)
         | Some b \<Rightarrow>
             (let amountCmp = compareAmounts rt (amountTol rt rules)
                                (cell_at a (fst (amountField mapping)))
                                (cell_at b (snd (amountField mapping)));
                  dateCmp = compareDates rt (dateTolDays rt rules)
                                (cell_at a (fst (dateField mapping)))
                                (cell_at b (snd (dateField mapping)))
              in if mismatches amountCmp dateCmp = []
                 then (MATCHED,
                       \<lparr>status = ''MATCHED'', key = Some k, reason = ''MATCHED'',
                        a_ref = Some a, b_ref = Some b\<rparr>)
                 else (MISMATCH,
                       \<lparr>status = ''mismatch'', key = Some k,
                        reason = join '' | '' (mismatch_reasons rt a b),
                        a_ref = Some a, b_ref = Some b\<rparr>)))"

subsection \<open>The two loops and the summary\<close>

text \<open>
  The state of the loops: the records pushed so far, the identifiers of the rows of B that
  a row of A was joined to, and the counters. \<open>push c r\<close> is
  \<^verbatim>\<open>statusCounts.c++; results.push(r)\<close>. A step of the first loop adds the
  \<^verbatim>\<open>__rowId\<close> of the row of B that it found, which is the \<^verbatim>\<open>b\<close> of its record, to
  \<^verbatim>\<open>bUsed\<close>.
\<close>

record loop_state =
  acc_results :: "result list"
  bUsed :: "jsval set"
  statusCounts :: "counter \<Rightarrow> nat"

definition push :: "counter \<Rightarrow> result \<Rightarrow> loop_state \<Rightarrow> loop_state" where
  "push c r st =
     st\<lparr>statusCounts := (statusCounts st)(c := statusCounts st c + 1),
        acc_results := acc_results st @ [r]\<rparr>"

definition probe_step ::
  "jshost \<Rightarrow> mapping \<Rightarrow> mode \<Rightarrow> rules \<Rightarrow> (string \<rightharpoonup> row) \<Rightarrow> loop_state \<Rightarrow> row \<Rightarrow> loop_state" where
  "probe_step rt mapping mode rules bIndex st a =
     (case classify_a rt mapping mode rules bIndex a of
        (c, r) \<Rightarrow>
          push c r (case b_ref r of
                      None \<Rightarrow> st
                    | Some b \<Rightarrow> st\<lparr>bUsed := insert (rowId b) (bUsed st)\<rparr>))"

text \<open>
  \<^verbatim>\<open>
  for (const b of bRows) {
    if (!bUsed.has(b.__rowId)) {
      statusCounts.MISSING_IN_A++;
      results.push({ status: "MISSING_IN_A",
                     key: (mode === "auto") ? stringify(b[idField.b] ?? "") : null,
                     reason: "MISSING_IN_A", a: null, b });
    }
  }
  \<close>
\<close>

definition missing_in_a :: "jshost \<Rightarrow> mapping \<Rightarrow> mode \<Rightarrow> row \<Rightarrow> result" where
  "missing_in_a rt mapping mode b =
     \<lparr>status = ''MISSING_IN_A'',
      key = (case mode of
               Auto \<Rightarrow> Some (stringify rt (nullish_or (cell_at b (snd (idField mapping))) (JStr '''')))
             | Custom \<Rightarrow> None),
      reason = ''MISSING_IN_A'', a_ref = None, b_ref = Some b\<rparr>"

definition sweep_step :: "jshost \<Rightarrow> mapping \<Rightarrow> mode \<Rightarrow> loop_state \<Rightarrow> row \<Rightarrow> loop_state" where
  "sweep_step rt mapping mode st b =
     (if rowId b \<notin> bUsed st then push MISSING_IN_A (missing_in_a rt mapping mode b) st else st)"

text \<open>
  \<^verbatim>\<open>
  const total = results.length;
  return { summary: { ...statusCounts, total }, results };
  \<close>
\<close>

record summary =
  counts :: "counter \<Rightarrow> nat"
  total :: nat

record recon =
  summary :: summary
  results :: "result list"

definition reconcile ::
  "jshost \<Rightarrow> row list \<Rightarrow> row list \<Rightarrow> mapping \<Rightarrow> mode \<Rightarrow> rules \<Rightarrow> recon" where
  "reconcile rt aRows bRows mapping mode rules =
     (let bIndex = build_bIndex rt mapping mode rules bRows;
          st0 = \<lparr>acc_results = [], bUsed = {}, statusCounts = (\<lambda>c. 0)\<rparr>;
          st1 = foldl (probe_step rt mapping mode rules bIndex) st0 aRows;
          st2 = foldl (sweep_step rt mapping mode) st1 bRows
      in \<lparr>summary = \<lparr>counts = statusCounts st2, total = length (acc_results st2)\<rparr>,
          results = acc_results st2\<rparr>)"

section \<open>A host for the examples\<close>

text \<open>
  The examples below run on \<open>example_host tz\<close>, which behaves as a Node.js process whose
  local time zone is \<open>tz\<close> minutes east of UTC does on the texts that the examples use:
  \<^item> it reads a decimal literal with an optional sign and an optional fraction, the empty
    text as 0 and a text without digits as NaN;
  \<^item> it prints integers in decimal;
  \<^item> it rounds nothing (the examples compute with small integers, which a double holds
    exactly);
  \<^item> it reads the ISO date texts of the examples as UTC midnight and the text
    \<^verbatim>\<open>01/05/2024\<close> as local midnight, and prints the time values that arise.
\<close>

definition digit :: "char \<Rightarrow> bool" where
  "digit c = (of_char c \<in> {48..57 :: nat})"

definition digits_val :: "string \<Rightarrow> nat" where
  "digits_val s = foldl (\<lambda>n c. 10 * n + (of_char c - 48)) 0 s"

definition unsigned_decimal :: "string \<Rightarrow> rat option" where
  "unsigned_decimal s =
     (let ip = takeWhile (\<lambda>c. c \<noteq> CHR ''.'') s; fp = drop (length ip + 1) s
      in if (ip \<noteq> [] \<or> fp \<noteq> []) \<and> list_all digit ip \<and> list_all digit fp
         then Some (of_nat (digits_val ip) + of_nat (digits_val fp) / 10 ^ length fp)
         else None)"

definition example_Number :: "string \<Rightarrow> jsnum" where
  "example_Number s0 =
     (let s = trim s0
      in if s = '''' then Fin 0
         else case (if hd s = CHR ''-'' \<or> hd s = CHR ''+'' then unsigned_decimal (tl s)
                    else unsigned_decimal s) of
                None \<Rightarrow> NaN
              | Some q \<Rightarrow> Fin (if hd s = CHR ''-'' then - q else q))"

fun nat_digits :: "nat \<Rightarrow> string" where
  "nat_digits n =
     (if n < 10 then [char_of (48 + n)] else nat_digits (n div 10) @ [char_of (48 + n mod 10)])"

fun example_String :: "jsnum \<Rightarrow> string" where
  "example_String NaN = ''NaN''"
| "example_String PInf = ''Infinity''"
| "example_String NInf = ''-Infinity''"
| "example_String (Fin q) =
     (if q < 0 then ''-'' @ nat_digits (nat \<lfloor>- q\<rfloor>) else nat_digits (nat \<lfloor>q\<rfloor>))"

definition example_Date_parse :: "int \<Rightarrow> string \<Rightarrow> int option" where
  "example_Date_parse tz s =
     map_of [(''2024-01-04T00:00:00Z'', 1704326400000),
             (''2024-01-05'', 1704412800000),
             (''2024-01-05T00:00:00Z'', 1704412800000),
             (''2024-01-06'', 1704499200000),
             (''2024-01-06T00:00:00Z'', 1704499200000),
             (''01/05/2024'', 1704412800000 - tz * 60000)] s"

definition example_toISOString :: "int \<Rightarrow> string" where
  "example_toISOString t =
     (if t = 1704326400000 then ''2024-01-04T00:00:00.000Z''
      else if t = 1704393000000 then ''2024-01-04T18:30:00.000Z''
      else if t = 1704412800000 then ''2024-01-05T00:00:00.000Z''
      else if t = 1704499200000 then ''2024-01-06T00:00:00.000Z''
      else '''')"

definition example_host :: "int \<Rightarrow> jshost" where
  "example_host tz =
     \<lparr>Number_of = example_Number, String_of = example_String, round_num = Fin,
      Date_parse = example_Date_parse tz, toISOString = example_toISOString\<rparr>"

definition no_rules :: rules where
  "no_rules = \<lparr>amountTolerance = JUndefined, dateToleranceDays = JUndefined,
               compositeKeysA = None, compositeKeysB = None, fieldTypes = Map.empty\<rparr>"

text \<open>
  Two small ledgers as the parser delivers them, \<^verbatim>\<open>__rowId\<close> first. In A the fourth row has
  a blank identifier and the third an identifier that B does not have; in B the second and
  third rows share an identifier and the fourth has none.
\<close>

definition ledger_A :: "row list" where
  "ledger_A =
     [[(''__rowId'', JNum (Fin 1)), (''transaction_id'', JStr ''T1''),
       (''date'', JStr ''2024-01-05''), (''amount'', JStr ''120'')],
      [(''__rowId'', JNum (Fin 2)), (''transaction_id'', JStr ''T2''),
       (''date'', JStr ''2024-01-05''), (''amount'', JStr ''1,000.00'')],
      [(''__rowId'', JNum (Fin 3)), (''transaction_id'', JStr ''T9''),
       (''date'', JStr ''2024-01-05''), (''amount'', JStr ''50'')],
      [(''__rowId'', JNum (Fin 4)), (''transaction_id'', JStr '' ''),
       (''date'', JStr ''2024-01-05''), (''amount'', JStr ''75'')]]"

definition ledger_B :: "row list" where
  "ledger_B =
     [[(''__rowId'', JNum (Fin 1)), (''transaction_id'', JStr ''T1''),
       (''date'', JStr ''2024-01-05''), (''amount'', JStr ''125'')],
      [(''__rowId'', JNum (Fin 2)), (''transaction_id'', JStr ''T2''),
       (''date'', JStr ''2024-01-05''), (''amount'', JStr ''1000'')],
      [(''__rowId'', JNum (Fin 3)), (''transaction_id'', JStr ''T2''),
       (''date'', JStr ''2024-01-06''), (''amount'', JStr ''1000'')],
      [(''__rowId'', JNum (Fin 4)), (''transaction_id'', JStr ''''),
       (''date'', JStr ''2024-01-05''), (''amount'', JStr ''75'')]]"

text \<open>Two rows of A that carry the identifier of the one row of B.\<close>

definition twin_A :: "row list" where
  "twin_A =
     [[(''__rowId'', JNum (Fin 1)), (''transaction_id'', JStr ''T1''), (''amount'', JStr ''120'')],
      [(''__rowId'', JNum (Fin 2)), (''transaction_id'', JStr ''T1''), (''amount'', JStr ''120'')]]"

definition single_B :: "row list" where
  "single_B =
     [[(''__rowId'', JNum (Fin 1)), (''transaction_id'', JStr ''T1''), (''amount'', JStr ''120'')]]"

text \<open>
  One row on each side with the same identifier and date: amounts 120 and 125; amounts
  100 on both sides; and the amounts 120 and 125 in a column called \<^verbatim>\<open>amt\<close>, with the
  mapping that the front end sends for such files.
\<close>

definition spec_A :: "row list" where
  "spec_A = [[(''__rowId'', JNum (Fin 1)), (''transaction_id'', JStr ''T1''),
              (''date'', JStr ''2024-01-05''), (''amount'', JStr ''120'')]]"

definition spec_B :: "row list" where
  "spec_B = [[(''__rowId'', JNum (Fin 1)), (''transaction_id'', JStr ''T1''),
              (''date'', JStr ''2024-01-05''), (''amount'', JStr ''125'')]]"


definition amt_A :: "row list" where
  "amt_A = [[(''__rowId'', JNum (Fin 1)), (''transaction_id'', JStr ''T1''),
             (''date'', JStr ''2024-01-05''), (''amt'', JStr ''120'')]]"

definition amt_B :: "row list" where
  "amt_B = [[(''__rowId'', JNum (Fin 1)), (''transaction_id'', JStr ''T1''),
             (''date'', JStr ''2024-01-05''), (''amt'', JStr ''125'')]]"

definition amt_mapping :: mapping where
  "amt_mapping = [''id'' \<mapsto> (Some ''transaction_id'', Some ''transaction_id''),
                  ''amount'' \<mapsto> (Some ''amt'', Some ''amt''),
                  ''date'' \<mapsto> (Some ''date'', Some ''date'')]"

text \<open>The same amount written in two ways, one day apart.\<close>

definition fmt_A :: "row list" where
  "fmt_A = [[(''__rowId'', JNum (Fin 1)), (''transaction_id'', JStr ''T1''),
             (''date'', JStr ''2024-01-05''), (''amount'', JStr ''100.00'')]]"

definition fmt_B :: "row list" where
  "fmt_B = [[(''__rowId'', JNum (Fin 1)), (''transaction_id'', JStr ''T1''),
             (''date'', JStr ''2024-01-06''), (''amount'', JStr ''100'')]]"



text \<open>Rules that declare the types of two columns, and one row in two formats.\<close>

definition typed_rules :: rules where
  "typed_rules = no_rules\<lparr>fieldTypes := [''date'' \<mapsto> ''date'', ''amount'' \<mapsto> ''number'']\<rparr>"

definition iso_row :: row where
  "iso_row = [(''__rowId'', JNum (Fin 1)), (''date'', JStr ''2024-01-05''),
              (''amount'', JStr ''1,000.00'')]"

definition us_row :: row where
  "us_row = [(''__rowId'', JNum (Fin 1)), (''date'', JStr ''01/05/2024''),
             (''amount'', JStr ''1000'')]"

section \<open>The loops as list functions\<close>

text \<open>
  The first loop appends one record per row of A, adds the identifiers of the rows of B it
  found and counts each row under the counter of its class.
\<close>

lemma probe_results:
  "acc_results (foldl (probe_step rt m mo ru idx) st A) =
     acc_results st @ map (\<lambda>a. snd (classify_a rt m mo ru idx a)) A"
  by (induction A arbitrary: st)
     (auto simp: probe_step_def push_def split: prod.splits option.splits)

lemma probe_bUsed:
  "bUsed (foldl (probe_step rt m mo ru idx) st A) =
     bUsed st \<union> rowId ` {b. \<exists>a \<in> set A. b_ref (snd (classify_a rt m mo ru idx a)) = Some b}"
  by (induction A arbitrary: st)
     (auto simp: probe_step_def push_def split: prod.splits option.splits)

lemma probe_counts:
  "statusCounts (foldl (probe_step rt m mo ru idx) st A) c =
     statusCounts st c + length (filter (\<lambda>a. fst (classify_a rt m mo ru idx a) = c) A)"
  by (induction A arbitrary: st)
     (auto simp: probe_step_def push_def split: prod.splits option.splits)

text \<open>The second loop leaves \<^verbatim>\<open>bUsed\<close> alone and appends a record per row not in it.\<close>

lemma sweep_results:
  "acc_results (foldl (sweep_step rt m mo) st B) =
     acc_results st @ map (missing_in_a rt m mo) (filter (\<lambda>b. rowId b \<notin> bUsed st) B)"
proof (induction B arbitrary: st)
  case Nil
  show ?case by simp
next
  case (Cons b B)
  have u: "bUsed (sweep_step rt m mo st b) = bUsed st"
    by (simp add: sweep_step_def push_def)
  show ?case
    by (simp add: Cons.IH u) (simp add: sweep_step_def push_def)
qed

lemma sweep_counts:
  "statusCounts (foldl (sweep_step rt m mo) st B) c =
     statusCounts st c
       + (if c = MISSING_IN_A then length (filter (\<lambda>b. rowId b \<notin> bUsed st) B) else 0)"
proof (induction B arbitrary: st)
  case Nil
  show ?case by simp
next
  case (Cons b B)
  have u: "bUsed (sweep_step rt m mo st b) = bUsed st"
    by (simp add: sweep_step_def push_def)
  show ?case
    by (simp add: Cons.IH u) (simp add: sweep_step_def push_def)
qed

lemma reconcile_results:
  "results (reconcile rt A B m mo ru) =
     map (\<lambda>a. snd (classify_a rt m mo ru (build_bIndex rt m mo ru B) a)) A
     @ map (missing_in_a rt m mo)
         (filter (\<lambda>b. rowId b \<notin> rowId ` {b'. \<exists>a \<in> set A.
                     b_ref (snd (classify_a rt m mo ru (build_bIndex rt m mo ru B) a)) = Some b'}) B)"
  by (simp add: reconcile_def Let_def sweep_results probe_results probe_bUsed)

lemma reconcile_counts:
  "counts (summary (reconcile rt A B m mo ru)) c =
     length (filter (\<lambda>a. fst (classify_a rt m mo ru (build_bIndex rt m mo ru B) a) = c) A)
     + (if c = MISSING_IN_A
        then length (filter (\<lambda>b. rowId b \<notin> rowId ` {b'. \<exists>a \<in> set A.
                     b_ref (snd (classify_a rt m mo ru (build_bIndex rt m mo ru B) a)) = Some b'}) B)
        else 0)"
  by (simp add: reconcile_def Let_def sweep_counts probe_counts probe_bUsed)

lemma reconcile_total:
  "total (summary (reconcile rt A B m mo ru)) = length (results (reconcile rt A B m mo ru))"
  by (simp add: reconcile_def Let_def)

lemma counter_partition:
  "length (filter (\<lambda>a. f a = MATCHED) xs) + length (filter (\<lambda>a. f a = MISMATCH) xs)
   + length (filter (\<lambda>a. f a = MISSING_IN_A) xs) + length (filter (\<lambda>a. f a = MISSING_IN_B) xs)
   = length xs"
proof (induction xs)
  case Nil
  show ?case by simp
next
  case (Cons x xs)
  then show ?case by (cases "f x") simp_all
qed

lemma classify_a_counter:
  "fst (classify_a rt m mo ru idx a) \<in> {MISSING_IN_B, MATCHED, MISMATCH}"
  by (simp add: classify_a_def Let_def split: option.splits)

lemma classify_a_a_ref:
  "a_ref (snd (classify_a rt m mo ru idx a)) = Some a"
  by (simp add: classify_a_def Let_def split: option.splits)

lemma classify_a_b_ref:
  "b_ref (snd (classify_a rt m mo ru idx a)) = Some b \<longleftrightarrow>
     aKey rt m mo ru a \<noteq> '''' \<and> idx (aKey rt m mo ru a) = Some b"
  by (auto simp: classify_a_def Let_def split: option.splits)

text \<open>The run of the engine on the two ledgers, in auto mode without rules.\<close>

lemma ledger_statuses:
  "map status (results (reconcile (example_host 0) ledger_A ledger_B Map.empty Auto no_rules))
   = [''mismatch'', ''MATCHED'', ''MISSING_IN_B'', ''MISSING_IN_B'',
      ''MISSING_IN_A'', ''MISSING_IN_A'']"
  by code_simp

lemma ledger_counts:
  "map (counts (summary (reconcile (example_host 0) ledger_A ledger_B Map.empty Auto no_rules)))
     [MATCHED, MISMATCH, MISSING_IN_A, MISSING_IN_B] = [1, 1, 2, 2]"
  by code_simp

lemma ledger_b_refs:
  "map b_ref (results (reconcile (example_host 0) ledger_A ledger_B Map.empty Auto no_rules))
   = [Some (ledger_B ! 0), Some (ledger_B ! 1), None, None,
      Some (ledger_B ! 2), Some (ledger_B ! 3)]"
  by code_simp

section \<open>The index keeps the first row of each key\<close>

lemma index_auto_fold:
  "foldl (\<lambda>bIndex r. let id = kf r
                      in if id = '''' then bIndex
                         else if bIndex id = None then bIndex(id \<mapsto> r) else bIndex) idx B k
   = (case idx k of Some r \<Rightarrow> Some r
      | None \<Rightarrow> if k = '''' then None else find (\<lambda>r. kf r = k) B)"
  by (induction B arbitrary: idx) (auto simp: Let_def split: option.splits)

lemma index_custom_fold:
  "foldl (\<lambda>bIndex r. let k = kf r
                      in if bIndex k = None then bIndex(k \<mapsto> r) else bIndex) idx B k
   = (case idx k of Some r \<Rightarrow> Some r | None \<Rightarrow> find (\<lambda>r. kf r = k) B)"
  by (induction B arbitrary: idx) (auto simp: Let_def split: option.splits)

lemma build_bIndex_find:
  "build_bIndex rt m mo ru B k =
     (if mo = Auto \<and> k = '''' then None else find (\<lambda>r. bKey rt m mo ru r = k) B)"
  by (cases mo) (simp_all add: build_bIndex_def index_auto_fold index_custom_fold)

lemma build_bIndex_row:
  assumes "build_bIndex rt m mo ru B k = Some b"
  shows "b \<in> set B \<and> bKey rt m mo ru b = k"
proof -
  have "build_bIndex rt m mo ru B k = None \<or>
        build_bIndex rt m mo ru B k = find (\<lambda>r. bKey rt m mo ru r = k) B"
    unfolding build_bIndex_find by simp
  with assms have "find (\<lambda>r. bKey rt m mo ru r = k) B = Some b"
    by (metis option.distinct(1))
  then show ?thesis
    unfolding find_Some_iff by auto
qed

lemma later_duplicate_not_indexed:
  assumes d: "distinct B" and ij: "i < j" and j: "j < length B"
    and same: "bKey rt m mo ru (B ! i) = bKey rt m mo ru (B ! j)"
  shows "build_bIndex rt m mo ru B k \<noteq> Some (B ! j)"
proof
  assume a: "build_bIndex rt m mo ru B k = Some (B ! j)"
  have "build_bIndex rt m mo ru B k = None \<or>
        build_bIndex rt m mo ru B k = find (\<lambda>r. bKey rt m mo ru r = k) B"
    unfolding build_bIndex_find by simp
  with a have "find (\<lambda>r. bKey rt m mo ru r = k) B = Some (B ! j)"
    by (metis option.distinct(1))
  then obtain i' where i': "i' < length B" "bKey rt m mo ru (B ! i') = k" "B ! j = B ! i'"
    and first: "\<forall>l < i'. bKey rt m mo ru (B ! l) \<noteq> k"
    unfolding find_Some_iff by auto
  from d i' j have eq: "i' = j"
    by (metis nth_eq_iff_index_eq)
  from first ij have "bKey rt m mo ru (B ! i) \<noteq> k"
    unfolding eq by blast
  moreover from i'(2) same have "bKey rt m mo ru (B ! i) = k"
    unfolding eq by blast
  ultimately show False
    by blast
qed

lemma trim_empty [simp]: "trim '''' = ''''"
  by (simp add: trim_def)

lemma stringify_nullish [simp]: "stringify rt (nullish_or v (JStr '''')) = stringify rt v"
  by (simp add: stringify_def nullish_or_def)

lemma truthy_idField_b: "truthy (snd (idField m))"
  by (simp add: idField_def pickField_def js_or_def truthy_def split: option.splits)

lemma bKey_auto: "bKey rt m Auto ru b = stringify rt (cell_at b (snd (idField m)))"
  by (simp add: bKey_def truthy_idField_b)

lemma aKey_auto: "aKey rt m Auto ru a = stringify rt (cell_at a (fst (idField m)))"
  by (simp add: aKey_def)

section \<open>Rows of B that no row of A is joined to\<close>

lemma filter_eq_in_distinct:
  "distinct xs \<Longrightarrow> x \<in> set xs \<Longrightarrow> filter (\<lambda>y. P y \<and> y = x) xs = (if P x then [x] else [])"
  by (induction xs) (auto simp: filter_empty_conv)

lemma distinct_rowId_rows: "distinct (map rowId B) \<Longrightarrow> distinct B"
  by (simp add: distinct_map)

lemma b_ref_missing_in_a [simp]: "b_ref (missing_in_a rt m mo b) = Some b"
  by (simp add: missing_in_a_def)

lemma a_ref_missing_in_a [simp]: "a_ref (missing_in_a rt m mo b) = None"
  by (simp add: missing_in_a_def)

lemma status_missing_in_a [simp]: "status (missing_in_a rt m mo b) = ''MISSING_IN_A''"
  by (simp add: missing_in_a_def)

lemma joined_rows:
  "(\<exists>a \<in> set A. b_ref (snd (classify_a rt m mo ru (build_bIndex rt m mo ru B) a)) = Some b)
   \<Longrightarrow> b \<in> set B \<and> (\<exists>k. build_bIndex rt m mo ru B k = Some b)"
  by (auto simp: classify_a_b_ref dest: build_bIndex_row)

text \<open>
  When the identifiers of B are pairwise distinct, the identifier of a row is in
  \<^verbatim>\<open>bUsed\<close> exactly when the row itself was joined.
\<close>

lemma used_iff_joined:
  assumes d: "distinct (map rowId B)" and b: "b \<in> set B"
  shows "rowId b \<in> rowId ` {b'. \<exists>a \<in> set A.
             b_ref (snd (classify_a rt m mo ru (build_bIndex rt m mo ru B) a)) = Some b'}
         \<longleftrightarrow> (\<exists>a \<in> set A.
             b_ref (snd (classify_a rt m mo ru (build_bIndex rt m mo ru B) a)) = Some b)"
proof -
  let ?J = "{b'. \<exists>a \<in> set A.
               b_ref (snd (classify_a rt m mo ru (build_bIndex rt m mo ru B) a)) = Some b'}"
  have inj: "inj_on rowId (set B)" using d by (simp add: distinct_map)
  have J: "?J \<subseteq> set B" using joined_rows [of A rt m mo ru B] by auto
  have "rowId b \<in> rowId ` ?J \<longleftrightarrow> b \<in> ?J"
  proof
    assume "rowId b \<in> rowId ` ?J"
    then obtain b' where b': "b' \<in> ?J" "rowId b = rowId b'" by auto
    with J have "b' \<in> set B" by auto
    with inj b b' have "b = b'" by (auto dest: inj_onD)
    with b' show "b \<in> ?J" by simp
  qed simp
  then show ?thesis by simp
qed

lemma unjoined_row_records:
  assumes d: "distinct (map rowId B)" and b: "b \<in> set B"
    and un: "\<forall>k. build_bIndex rt m mo ru B k \<noteq> Some b"
  shows "filter (\<lambda>r. b_ref r = Some b) (results (reconcile rt A B m mo ru))
         = [missing_in_a rt m mo b]"
proof -
  let ?cls = "classify_a rt m mo ru (build_bIndex rt m mo ru B)"
  let ?J = "{b'. \<exists>a \<in> set A. b_ref (snd (?cls a)) = Some b'}"
  have dB: "distinct B" using d by (rule distinct_rowId_rows)
  have notJ: "b \<notin> ?J" using un by (auto simp: classify_a_b_ref)
  have unused: "rowId b \<notin> rowId ` ?J"
    using used_iff_joined [OF d b, of A rt m mo ru] notJ by simp
  have first: "filter (\<lambda>r. b_ref r = Some b) (map (\<lambda>a. snd (?cls a)) A) = []"
    using notJ by (auto simp: filter_empty_conv)
  have "filter (\<lambda>r. b_ref r = Some b)
          (map (missing_in_a rt m mo) (filter (\<lambda>b. rowId b \<notin> rowId ` ?J) B))
        = map (missing_in_a rt m mo)
            (filter (\<lambda>y. y = b) (filter (\<lambda>b. rowId b \<notin> rowId ` ?J) B))"
    by (simp add: filter_map o_def)
  also have "\<dots> = [missing_in_a rt m mo b]"
    using unused by (simp add: filter_eq_in_distinct [OF dB b])
  finally show ?thesis
    using first by (simp add: reconcile_results)
qed

section \<open>The summary\<close>

text \<open>
  C3. For every invocation of reconcile, the four counters of the summary add up to its
  total, and the total is the number of records in the results list.
\<close>

theorem summary_adds_up:
  "counts (summary (reconcile rt A B m mo ru)) MATCHED
   + counts (summary (reconcile rt A B m mo ru)) MISMATCH
   + counts (summary (reconcile rt A B m mo ru)) MISSING_IN_A
   + counts (summary (reconcile rt A B m mo ru)) MISSING_IN_B
   = total (summary (reconcile rt A B m mo ru))
   \<and> total (summary (reconcile rt A B m mo ru)) = length (results (reconcile rt A B m mo ru))"
proof -
  let ?cls = "\<lambda>a. fst (classify_a rt m mo ru (build_bIndex rt m mo ru B) a)"
  have "length (filter (\<lambda>a. ?cls a = MATCHED) A) + length (filter (\<lambda>a. ?cls a = MISMATCH) A)
        + length (filter (\<lambda>a. ?cls a = MISSING_IN_A) A)
        + length (filter (\<lambda>a. ?cls a = MISSING_IN_B) A) = length A"
    by (rule counter_partition)
  then show ?thesis
    by (simp add: reconcile_counts reconcile_total reconcile_results)
qed

theorem summary_adds_up_witness:
  "total (summary (reconcile (example_host 0) ledger_A ledger_B Map.empty Auto no_rules)) = 6
   \<and> length (results (reconcile (example_host 0) ledger_A ledger_B Map.empty Auto no_rules)) = 6"
  using summary_adds_up [of "example_host 0" ledger_A ledger_B Map.empty Auto no_rules]
    ledger_counts
  by simp

section \<open>Duplicate keys in B\<close>

text \<open>
  C5. When two or more rows of B produce the same join key, in either mode, only the first
  of them in the order of B can be joined: every later row \<open>B ! j\<close> that shares its key with
  an earlier row \<open>B ! i\<close> is referenced by exactly one record of the results, and that
  record is the MISSING_IN_A record of the row, so no MATCHED or MISMATCH record refers to
  it. The rows of a dataset carry pairwise distinct identifiers.
\<close>

theorem later_duplicate_missing_in_a:
  assumes "distinct (map rowId B)" and "i < j" and "j < length B"
    and "bKey rt m mo ru (B ! i) = bKey rt m mo ru (B ! j)"
  shows "filter (\<lambda>r. b_ref r = Some (B ! j)) (results (reconcile rt A B m mo ru))
           = [missing_in_a rt m mo (B ! j)]
         \<and> status (missing_in_a rt m mo (B ! j)) = ''MISSING_IN_A''
         \<and> a_ref (missing_in_a rt m mo (B ! j)) = None"
proof -
  have "distinct B"
    using assms(1) by (rule distinct_rowId_rows)
  then have "build_bIndex rt m mo ru B k \<noteq> Some (B ! j)" for k
    using assms(2-4) by (rule later_duplicate_not_indexed)
  then have "\<forall>k. build_bIndex rt m mo ru B k \<noteq> Some (B ! j)" ..
  moreover have "B ! j \<in> set B"
    using assms(3) by simp
  ultimately show ?thesis
    using assms(1) by (simp add: unjoined_row_records)
qed

theorem later_duplicate_missing_in_a_witness:
  "distinct (map rowId ledger_B) \<and> (1::nat) < 2 \<and> 2 < length ledger_B
   \<and> bKey (example_host 0) Map.empty Auto no_rules (ledger_B ! 1) = ''T2''
   \<and> bKey (example_host 0) Map.empty Auto no_rules (ledger_B ! 2) = ''T2''
   \<and> filter (\<lambda>r. b_ref r = Some (ledger_B ! 2))
        (results (reconcile (example_host 0) ledger_A ledger_B Map.empty Auto no_rules))
      = [missing_in_a (example_host 0) Map.empty Auto (ledger_B ! 2)]"
proof -
  have d: "distinct (map rowId ledger_B)"
    by (simp add: ledger_B_def rowId_def cell_def)
  have l: "2 < length ledger_B"
    by (simp add: ledger_B_def)
  have k1: "bKey (example_host 0) Map.empty Auto no_rules (ledger_B ! 1) = ''T2''"
    by code_simp
  have k2: "bKey (example_host 0) Map.empty Auto no_rules (ledger_B ! 2) = ''T2''"
    by code_simp
  have "(1::nat) < 2" by simp
  from later_duplicate_missing_in_a [OF d this l, of "example_host 0" Map.empty Auto no_rules ledger_A]
    d l k1 k2
  show ?thesis by simp
qed

section \<open>Blank identifiers in auto mode\<close>

text \<open>
  C10. In auto mode a row of B whose identifier column is empty after trimming is never put
  into the index: no key of the index maps to it, and the only record that refers to it is
  its MISSING_IN_A record. A row of A whose identifier is empty after trimming gets a
  MISSING_IN_B record without a row of B. So two rows with blank identifiers never match
  each other. The rows of B carry pairwise distinct identifiers.
\<close>

theorem blank_id_never_joins:
  "(distinct (map rowId B) \<longrightarrow>
      (\<forall>b \<in> set B. stringify rt (cell_at b (snd (idField m))) = '''' \<longrightarrow>
         (\<forall>k. build_bIndex rt m Auto ru B k \<noteq> Some b)
         \<and> filter (\<lambda>r. b_ref r = Some b) (results (reconcile rt A B m Auto ru))
             = [missing_in_a rt m Auto b]
         \<and> status (missing_in_a rt m Auto b) = ''MISSING_IN_A''))
   \<and> (\<forall>i < length A. stringify rt (cell_at (A ! i) (fst (idField m))) = '''' \<longrightarrow>
         results (reconcile rt A B m Auto ru) ! i
           = \<lparr>status = ''MISSING_IN_B'', key = Some '''', reason = ''MISSING_IN_B'',
              a_ref = Some (A ! i), b_ref = None\<rparr>)"
proof (intro conjI impI ballI allI)
  fix b k
  assume "stringify rt (cell_at b (snd (idField m))) = ''''"
  then have "bKey rt m Auto ru b = ''''"
    by (simp add: bKey_auto)
  then show "build_bIndex rt m Auto ru B k \<noteq> Some b"
    by (auto simp: build_bIndex_find find_Some_iff)
next
  fix b
  assume d: "distinct (map rowId B)" and b: "b \<in> set B"
    and e: "stringify rt (cell_at b (snd (idField m))) = ''''"
  have "\<forall>k. build_bIndex rt m Auto ru B k \<noteq> Some b"
    using e by (auto simp: bKey_auto build_bIndex_find find_Some_iff)
  with d b show "filter (\<lambda>r. b_ref r = Some b) (results (reconcile rt A B m Auto ru))
                   = [missing_in_a rt m Auto b]"
    by (rule unjoined_row_records)
next
  fix b
  show "status (missing_in_a rt m Auto b) = ''MISSING_IN_A''"
    by simp
next
  fix i
  assume i: "i < length A" and e: "stringify rt (cell_at (A ! i) (fst (idField m))) = ''''"
  then show "results (reconcile rt A B m Auto ru) ! i
           = \<lparr>status = ''MISSING_IN_B'', key = Some '''', reason = ''MISSING_IN_B'',
              a_ref = Some (A ! i), b_ref = None\<rparr>"
    by (simp add: reconcile_results nth_append classify_a_def aKey_auto)
qed

theorem blank_id_never_joins_witness:
  "distinct (map rowId ledger_B) \<and> ledger_B ! 3 \<in> set ledger_B
   \<and> stringify (example_host 0) (cell_at (ledger_B ! 3) (snd (idField Map.empty))) = ''''
   \<and> filter (\<lambda>r. b_ref r = Some (ledger_B ! 3))
        (results (reconcile (example_host 0) ledger_A ledger_B Map.empty Auto no_rules))
       = [missing_in_a (example_host 0) Map.empty Auto (ledger_B ! 3)]
   \<and> 3 < length ledger_A
   \<and> stringify (example_host 0) (cell_at (ledger_A ! 3) (fst (idField Map.empty))) = ''''
   \<and> results (reconcile (example_host 0) ledger_A ledger_B Map.empty Auto no_rules) ! 3
       = \<lparr>status = ''MISSING_IN_B'', key = Some '''', reason = ''MISSING_IN_B'',
          a_ref = Some (ledger_A ! 3), b_ref = None\<rparr>"
proof -
  have d: "distinct (map rowId ledger_B)"
    by (simp add: ledger_B_def rowId_def cell_def)
  have b: "ledger_B ! 3 \<in> set ledger_B"
    by (simp add: ledger_B_def)
  have e: "stringify (example_host 0) (cell_at (ledger_B ! 3) (snd (idField Map.empty))) = ''''"
    by code_simp
  have l: "3 < length ledger_A"
    by (simp add: ledger_A_def)
  have e': "stringify (example_host 0) (cell_at (ledger_A ! 3) (fst (idField Map.empty))) = ''''"
    by code_simp
  note T = blank_id_never_joins [of ledger_B "example_host 0" Map.empty no_rules ledger_A]
  from T d b e have "filter (\<lambda>r. b_ref r = Some (ledger_B ! 3))
        (results (reconcile (example_host 0) ledger_A ledger_B Map.empty Auto no_rules))
       = [missing_in_a (example_host 0) Map.empty Auto (ledger_B ! 3)]"
    by blast
  moreover from T l e'
  have "results (reconcile (example_host 0) ledger_A ledger_B Map.empty Auto no_rules) ! 3
       = \<lparr>status = ''MISSING_IN_B'', key = Some '''', reason = ''MISSING_IN_B'',
          a_ref = Some (ledger_A ! 3), b_ref = None\<rparr>"
    by blast
  ultimately show ?thesis
    using d b e l e' by blast
qed

section \<open>The order of the results\<close>

text \<open>
  C9. The results list is, first, one record per row of A in the order of A, each counted
  under MISSING_IN_B, MATCHED or MISMATCH and referring to its row of A, and then one
  MISSING_IN_A record per row of B whose identifier was never marked used, in the order of B.
  When the identifiers of B are pairwise distinct, these are the rows of B that no row of A
  was joined to.
\<close>

theorem results_order:
  "results (reconcile rt A B m mo ru) =
     map (\<lambda>a. snd (classify_a rt m mo ru (build_bIndex rt m mo ru B) a)) A
     @ map (missing_in_a rt m mo)
         (filter (\<lambda>b. rowId b \<notin> rowId ` {b'. \<exists>a \<in> set A.
                     b_ref (snd (classify_a rt m mo ru (build_bIndex rt m mo ru B) a)) = Some b'}) B)
   \<and> (\<forall>a. fst (classify_a rt m mo ru (build_bIndex rt m mo ru B) a)
              \<in> {MISSING_IN_B, MATCHED, MISMATCH}
           \<and> a_ref (snd (classify_a rt m mo ru (build_bIndex rt m mo ru B) a)) = Some a)
   \<and> (\<forall>b. status (missing_in_a rt m mo b) = ''MISSING_IN_A''
           \<and> a_ref (missing_in_a rt m mo b) = None
           \<and> b_ref (missing_in_a rt m mo b) = Some b)
   \<and> (distinct (map rowId B) \<longrightarrow>
        (\<forall>b \<in> set B.
           rowId b \<notin> rowId ` {b'. \<exists>a \<in> set A.
               b_ref (snd (classify_a rt m mo ru (build_bIndex rt m mo ru B) a)) = Some b'}
           \<longleftrightarrow> \<not> (\<exists>a \<in> set A.
               b_ref (snd (classify_a rt m mo ru (build_bIndex rt m mo ru B) a)) = Some b)))"
proof (intro conjI allI impI ballI)
  fix b
  assume "distinct (map rowId B)" and "b \<in> set B"
  then show "rowId b \<notin> rowId ` {b'. \<exists>a \<in> set A.
               b_ref (snd (classify_a rt m mo ru (build_bIndex rt m mo ru B) a)) = Some b'}
           \<longleftrightarrow> \<not> (\<exists>a \<in> set A.
               b_ref (snd (classify_a rt m mo ru (build_bIndex rt m mo ru B) a)) = Some b)"
    by (simp only: used_iff_joined)
qed (simp_all add: reconcile_results classify_a_a_ref classify_a_counter [simplified])

theorem results_order_witness:
  "distinct (map rowId ledger_B)
   \<and> results (reconcile (example_host 0) ledger_A ledger_B Map.empty Auto no_rules)
     = map (\<lambda>a. snd (classify_a (example_host 0) Map.empty Auto no_rules
                       (build_bIndex (example_host 0) Map.empty Auto no_rules ledger_B) a)) ledger_A
       @ map (missing_in_a (example_host 0) Map.empty Auto) [ledger_B ! 2, ledger_B ! 3]"
proof -
  let ?cls = "classify_a (example_host 0) Map.empty Auto no_rules
                (build_bIndex (example_host 0) Map.empty Auto no_rules ledger_B)"
  let ?J = "{b'. \<exists>a \<in> set ledger_A. b_ref (snd (?cls a)) = Some b'}"
  note T = results_order [of "example_host 0" ledger_A ledger_B Map.empty Auto no_rules]
  have d: "distinct (map rowId ledger_B)"
    by (simp add: ledger_B_def rowId_def cell_def)
  with T have "\<forall>b \<in> set ledger_B. rowId b \<notin> rowId ` ?J
                 \<longleftrightarrow> \<not> (\<exists>a \<in> set ledger_A. b_ref (snd (?cls a)) = Some b)"
    by blast
  then have "filter (\<lambda>b. rowId b \<notin> rowId ` ?J) ledger_B
             = filter (\<lambda>b. \<not> (\<exists>a \<in> set ledger_A. b_ref (snd (?cls a)) = Some b)) ledger_B"
    by (intro filter_cong) auto
  also have "\<dots> = [ledger_B ! 2, ledger_B ! 3]"
    by code_simp
  finally have F: "filter (\<lambda>b. rowId b \<notin> rowId ` ?J) ledger_B = [ledger_B ! 2, ledger_B ! 3]" .
  from T have "results (reconcile (example_host 0) ledger_A ledger_B Map.empty Auto no_rules)
     = map (\<lambda>a. snd (?cls a)) ledger_A
       @ map (missing_in_a (example_host 0) Map.empty Auto)
           (filter (\<lambda>b. rowId b \<notin> rowId ` ?J) ledger_B)"
    by blast
  with F d show ?thesis
    by simp
qed

section \<open>Every row is referenced\<close>

text \<open>
  C1, as the engine has it. Every row of A is the A-side reference of exactly one record,
  the one at its position, and the records after those refer to no row of A. Every B-side
  reference is a row of B. When the identifiers of B are pairwise distinct, every row of B
  is the B-side reference of at least one record: of exactly one record of the sweep when no
  row of A was joined to it, and of no record of the sweep otherwise. A row of B that
  several rows of A are joined to is the B-side reference of each of their records.
\<close>

theorem rows_referenced:
  "map a_ref (results (reconcile rt A B m mo ru))
     = map Some A @ replicate (length (results (reconcile rt A B m mo ru)) - length A) None
   \<and> (\<forall>r \<in> set (results (reconcile rt A B m mo ru)). \<forall>b. b_ref r = Some b \<longrightarrow> b \<in> set B)
   \<and> (distinct (map rowId B) \<longrightarrow>
        (\<forall>b \<in> set B.
           (\<exists>r \<in> set (results (reconcile rt A B m mo ru)). b_ref r = Some b)
           \<and> length (filter (\<lambda>r. b_ref r = Some b)
                       (drop (length A) (results (reconcile rt A B m mo ru))))
               = (if \<exists>r \<in> set (take (length A) (results (reconcile rt A B m mo ru))).
                       b_ref r = Some b
                  then 0 else 1)))"
proof -
  let ?cls = "classify_a rt m mo ru (build_bIndex rt m mo ru B)"
  let ?J = "{b'. \<exists>a \<in> set A. b_ref (snd (?cls a)) = Some b'}"
  let ?R1 = "map (\<lambda>a. snd (?cls a)) A"
  let ?U = "filter (\<lambda>b. rowId b \<notin> rowId ` ?J) B"
  let ?R2 = "map (missing_in_a rt m mo) ?U"
  have rs: "results (reconcile rt A B m mo ru) = ?R1 @ ?R2"
    by (rule reconcile_results)
  have a: "map a_ref (?R1 @ ?R2) = map Some A @ replicate (length (?R1 @ ?R2) - length A) None"
    by (simp add: o_def classify_a_a_ref map_replicate_const)
  have from_B: "\<forall>r \<in> set (?R1 @ ?R2). \<forall>b. b_ref r = Some b \<longrightarrow> b \<in> set B"
  proof (intro ballI allI impI)
    fix r b
    assume r: "r \<in> set (?R1 @ ?R2)" and rb: "b_ref r = Some b"
    from r consider a where "a \<in> set A" "r = snd (?cls a)"
      | b' where "b' \<in> set B" "r = missing_in_a rt m mo b'"
      by auto
    then show "b \<in> set B"
    proof cases
      case 1
      with rb have "\<exists>a \<in> set A. b_ref (snd (?cls a)) = Some b" by auto
      then show ?thesis by (rule joined_rows [THEN conjunct1])
    next
      case 2
      with rb show ?thesis by simp
    qed
  qed
  have each: "(\<exists>r \<in> set (?R1 @ ?R2). b_ref r = Some b)
           \<and> length (filter (\<lambda>r. b_ref r = Some b) (drop (length A) (?R1 @ ?R2)))
               = (if \<exists>r \<in> set (take (length A) (?R1 @ ?R2)). b_ref r = Some b then 0 else 1)"
    if d: "distinct (map rowId B)" and b: "b \<in> set B" for b
  proof -
    have dB: "distinct B" using d by (rule distinct_rowId_rows)
    have used: "rowId b \<in> rowId ` ?J \<longleftrightarrow> b \<in> ?J"
      using used_iff_joined [OF d b, of A rt m mo ru] by simp
    have in1: "(\<exists>r \<in> set ?R1. b_ref r = Some b) \<longleftrightarrow> b \<in> ?J"
      by auto
    have "filter (\<lambda>r. b_ref r = Some b) ?R2 = map (missing_in_a rt m mo) (filter (\<lambda>y. y = b) ?U)"
      by (simp add: filter_map o_def)
    also have "\<dots> = (if b \<in> ?J then [] else [missing_in_a rt m mo b])"
      using used by (simp add: filter_eq_in_distinct [OF dB b])
    finally have f2: "filter (\<lambda>r. b_ref r = Some b) ?R2
                      = (if b \<in> ?J then [] else [missing_in_a rt m mo b])" .
    have in2: "\<exists>r \<in> set ?R2. b_ref r = Some b" if "b \<notin> ?J"
    proof -
      from that used have "rowId b \<notin> rowId ` ?J" by blast
      with b have "b \<in> set ?U" by simp
      then have "missing_in_a rt m mo b \<in> set ?R2" by (simp only: set_map) (rule imageI)
      moreover have "b_ref (missing_in_a rt m mo b) = Some b" by simp
      ultimately show ?thesis by blast
    qed
    have ex: "\<exists>r \<in> set (?R1 @ ?R2). b_ref r = Some b"
    proof (cases "b \<in> ?J")
      case True
      with in1 obtain r where "r \<in> set ?R1" "b_ref r = Some b" by blast
      then show ?thesis by (simp only: set_append Un_iff) blast
    next
      case False
      from in2 [OF False] obtain r where "r \<in> set ?R2" "b_ref r = Some b" by blast
      then show ?thesis by (simp only: set_append Un_iff) blast
    qed
    have "length (filter (\<lambda>r. b_ref r = Some b) ?R2) = (if b \<in> ?J then 0 else 1)"
      by (simp only: f2) simp
    with in1 ex show ?thesis
      by simp
  qed
  show ?thesis
    unfolding rs using a from_B each by blast
qed

theorem rows_referenced_witness:
  "distinct (map rowId ledger_B) \<and> ledger_B ! 2 \<in> set ledger_B
   \<and> map a_ref (results (reconcile (example_host 0) ledger_A ledger_B Map.empty Auto no_rules))
       = map Some ledger_A @ replicate 2 None
   \<and> b_ref (results (reconcile (example_host 0) ledger_A ledger_B Map.empty Auto no_rules) ! 0)
       = Some (ledger_B ! 0)
   \<and> ledger_B ! 0 \<in> set ledger_B
   \<and> (\<exists>r \<in> set (results (reconcile (example_host 0) ledger_A ledger_B Map.empty Auto no_rules)).
         b_ref r = Some (ledger_B ! 2))
   \<and> length (filter (\<lambda>r. b_ref r = Some (ledger_B ! 2))
               (drop (length ledger_A)
                  (results (reconcile (example_host 0) ledger_A ledger_B Map.empty Auto no_rules))))
       = (if \<exists>r \<in> set (take (length ledger_A)
                    (results (reconcile (example_host 0) ledger_A ledger_B Map.empty Auto no_rules))).
               b_ref r = Some (ledger_B ! 2)
          then 0 else 1)"
proof -
  let ?rs = "results (reconcile (example_host 0) ledger_A ledger_B Map.empty Auto no_rules)"
  note T = rows_referenced [of "example_host 0" ledger_A ledger_B Map.empty Auto no_rules]
  have d: "distinct (map rowId ledger_B)"
    by (simp add: ledger_B_def rowId_def cell_def)
  have b: "ledger_B ! 2 \<in> set ledger_B"
    by (simp add: ledger_B_def)
  have len: "length ?rs = 6"
  proof -
    have "length (map b_ref ?rs) = 6"
      by (simp only: ledger_b_refs) simp
    then show ?thesis by simp
  qed
  have la: "length ledger_A = 4"
    by (simp add: ledger_A_def)
  from T have "map a_ref ?rs = map Some ledger_A @ replicate (length ?rs - length ledger_A) None"
    by blast
  with len la have a: "map a_ref ?rs = map Some ledger_A @ replicate 2 None"
    by simp
  have "map b_ref ?rs ! 0 = Some (ledger_B ! 0)"
    by (simp only: ledger_b_refs nth_Cons_0)
  with len have r0: "b_ref (?rs ! 0) = Some (ledger_B ! 0)"
    by simp
  from len have "?rs ! 0 \<in> set ?rs"
    by simp
  with T r0 have b0: "ledger_B ! 0 \<in> set ledger_B"
    by blast
  from T d b a r0 b0 show ?thesis
    by blast
qed

text \<open>
  The claim as stated fails: both rows of \<open>twin_A\<close> are joined to the one row of
  \<open>single_B\<close>, which is then the B-side reference of two records.
\<close>

theorem row_of_B_referenced_twice:
  "map b_ref (results (reconcile (example_host 0) twin_A single_B Map.empty Auto no_rules))
   = [Some (single_B ! 0), Some (single_B ! 0)]"
  by code_simp

section \<open>The status and the reason of a mismatch\<close>

text \<open>
  C2. Every status in the results is one of the four upper-case names. The engine breaks
  this: for the rows of \<open>spec_A\<close> and \<open>spec_B\<close>, which share an identifier and
  differ in the amount, the record carries the status \<^verbatim>\<open>mismatch\<close> in lower case,
  while the summary counts it under MISMATCH.
\<close>

theorem mismatch_status_lower_case:
  "map status (results (reconcile (example_host 0) spec_A spec_B Map.empty Auto no_rules))
     = [''mismatch'']
   \<and> counts (summary (reconcile (example_host 0) spec_A spec_B Map.empty Auto no_rules)) MISMATCH = 1"
  by code_simp

text \<open>
  C4. The reason of a mismatch record names exactly the dimensions on which the comparators
  failed. The engine breaks this in both directions. For \<open>fmt_A\<close> and \<open>fmt_B\<close> the
  amount comparator succeeds (100.00 and 100 are the same number) and the reason still says
  that the amount differs. For \<open>amt_A\<close> and \<open>amt_B\<close>, whose amounts are in the mapped
  column \<^verbatim>\<open>amt\<close>, the amount comparator fails and the reason is empty.
\<close>

theorem mismatch_reason_ignores_comparators:
  "ok (compareAmounts (example_host 0) (amountTol (example_host 0) no_rules)
         (cell_at (fmt_A ! 0) (fst (amountField Map.empty)))
         (cell_at (fmt_B ! 0) (snd (amountField Map.empty))))
   \<and> map reason (results (reconcile (example_host 0) fmt_A fmt_B Map.empty Auto no_rules))
       = [''Amount differs (100.00 vs 100) | Date differs (2024-01-05 vs 2024-01-06)'']
   \<and> \<not> ok (compareAmounts (example_host 0) (amountTol (example_host 0) no_rules)
         (cell_at (amt_A ! 0) (fst (amountField amt_mapping)))
         (cell_at (amt_B ! 0) (snd (amountField amt_mapping))))
   \<and> map status (results (reconcile (example_host 0) amt_A amt_B amt_mapping Auto no_rules))
       = [''mismatch'']
   \<and> map reason (results (reconcile (example_host 0) amt_A amt_B amt_mapping Auto no_rules))
       = ['''']"
  by code_simp

section \<open>The amount comparator\<close>




lemma js_le_NaN [simp]: "\<not> js_le d NaN"
  by (cases d) auto





section \<open>Tolerances that are missing or no numbers\<close>












section \<open>The key builder on formatted texts\<close>

text \<open>
  Two rows get the same key whenever each listed column has the same normalisation under
  its declared type in both. With the type number the texts \<^verbatim>\<open>1,000.00\<close> and
  \<^verbatim>\<open>1000\<close> give the same key part, and so do the date texts \<^verbatim>\<open>2024-01-05\<close> and
  \<^verbatim>\<open>01/05/2024\<close> in a process that runs in UTC.
\<close>

lemma buildKey_deterministic:
  assumes "\<forall>f \<in> set cols.
     (fieldTypes ru f = Some ''number'' \<longrightarrow> toNumber rt (cell r1 f) = toNumber rt (cell r2 f))
     \<and> (fieldTypes ru f \<noteq> Some ''number'' \<and> fieldTypes ru f = Some ''date'' \<longrightarrow>
          normalizeDate rt (cell r1 f) = normalizeDate rt (cell r2 f))
     \<and> (fieldTypes ru f \<noteq> Some ''number'' \<and> fieldTypes ru f \<noteq> Some ''date'' \<longrightarrow>
          toLowerCase (stringify rt (cell r1 f)) = toLowerCase (stringify rt (cell r2 f)))"
  shows "buildKey rt r1 cols ru = buildKey rt r2 cols ru"
proof -
  have "key_part rt ru r1 f = key_part rt ru r2 f" if "f \<in> set cols" for f
    using assms that by (auto simp: key_part_def Let_def)
  then have "map (key_part rt ru r1) cols = map (key_part rt ru r2) cols"
    by simp
  then show ?thesis
    by (simp only: buildKey_def)
qed

lemma number_texts_same_key:
  "buildKey (example_host tz) iso_row [''amount''] typed_rules = ''1000''
   \<and> buildKey (example_host tz) us_row [''amount''] typed_rules = ''1000''"
  by code_simp

lemma date_texts_same_key_in_utc:
  "buildKey (example_host 0) iso_row [''date''] typed_rules = ''2024-01-05''
   \<and> buildKey (example_host 0) us_row [''date''] typed_rules = ''2024-01-05''"
  by code_simp

text \<open>
  C6. Texts that differ only in their format collapse to one key when the types are
  declared. The engine breaks this for dates in a process whose local time zone is east of
  UTC: \<^verbatim>\<open>new Date("01/05/2024")\<close> is local midnight, which \<^verbatim>\<open>toISOString\<close> prints
  as the evening of the day before, while \<^verbatim>\<open>new Date("2024-01-05")\<close> is UTC midnight.
  At 330 minutes east of UTC the two texts get different keys.
\<close>

theorem date_texts_differ_east_of_utc:
  "buildKey (example_host 330) iso_row [''date''] typed_rules = ''2024-01-05''
   \<and> buildKey (example_host 330) us_row [''date''] typed_rules = ''2024-01-04''"
  by code_simp

end
